theory Spec2Isabelle
  imports Main
begin

section \<open>Constants and errors (core/common/constants.ts, core/common/error-handler.ts)\<close>

definition HTTP_BAD_REQUEST :: nat where "HTTP_BAD_REQUEST = 400"
definition HTTP_UNAUTHENTICATED :: nat where "HTTP_UNAUTHENTICATED = 401"
definition HTTP_FORBIDDEN :: nat where "HTTP_FORBIDDEN = 403"
definition HTTP_NOT_FOUND :: nat where "HTTP_NOT_FOUND = 404"
definition HTTP_INTERNAL_SERVER_ERROR :: nat where "HTTP_INTERNAL_SERVER_ERROR = 500"

text \<open>
  A thrown JavaScript value.  \<open>AppError message name statusCode\<close> is the class of
  error-handler.ts; \<open>TypeError\<close> is what the runtime raises on a property access through
  \<open>undefined\<close>; \<open>LibError name message\<close> is an error raised inside a library
  (jsonwebtoken, bcrypt, the ORM).
\<close>

datatype js_error =
    AppError string string nat
  | TypeError string
  | LibError string string

fun error_message :: "js_error \<Rightarrow> string" where
  "error_message (AppError message name statusCode) = message"
| "error_message (TypeError message) = message"
| "error_message (LibError name message) = message"

fun error_status :: "js_error \<Rightarrow> nat option" where
  "error_status (AppError message name statusCode) = Some statusCode"
| "error_status (TypeError message) = None"
| "error_status (LibError name message) = None"

text \<open>\<open>throwError(message, statusCode)\<close> with the default name \<open>'AppError'\<close>: the value thrown.\<close>

definition throwError :: "string \<Rightarrow> nat \<Rightarrow> js_error" where
  "throwError message statusCode = AppError message ''AppError'' statusCode"

section \<open>Types (types/index.ts)\<close>

text \<open>
  \<open>JWTPayload\<close>: \<open>roles\<close> and \<open>tenantId\<close> are optional properties, \<open>None\<close> is
  \<open>undefined\<close>.  A payload that came out of \<open>jwt.verify\<close> carries the issue and expiry
  timestamps as well.
\<close>

record JWTPayload =
  userId :: string
  email :: string
  roles :: "string list option"
  tenantId :: "string option"

record DecodedPayload = JWTPayload +
  iat :: nat
  exp :: nat

text \<open>The members of \<open>enum UserRole\<close> are their string values.\<close>

definition UserRole_ADMIN :: string where "UserRole_ADMIN = ''admin''"
definition UserRole_USER :: string where "UserRole_USER = ''user''"
definition UserRole_MANAGER :: string where "UserRole_MANAGER = ''manager''"

text \<open>
  A value found in a parsed request body.  Objects and arrays are not inspected by the
  code modelled here, only tested for truthiness, so they are one opaque constructor.
\<close>

datatype jsval = JUndefined | JNull | JBool bool | JNum int | JStr string | JObject

fun truthy :: "jsval \<Rightarrow> bool" where
  "truthy JUndefined = False"
| "truthy JNull = False"
| "truthy (JBool b) = b"
| "truthy (JNum n) = (n \<noteq> 0)"
| "truthy (JStr s) = (s \<noteq> [])"
| "truthy JObject = True"

definition js_or :: "jsval \<Rightarrow> jsval \<Rightarrow> jsval" where
  "js_or a b = (if truthy a then a else b)"

text \<open>
  The part of an Express request the middlewares read.  \<open>session\<close> is \<open>None\<close> when
  \<open>req.session\<close> is undefined, \<open>Some None\<close> when it is an object without a user.
  A route parameter is a string or undefined.  \<open>body_tenantId\<close> is \<open>None\<close> when
  \<open>req.body\<close> is undefined (no body was parsed), and otherwise the value of the
  \<open>tenantId\<close> property of the body (\<open>JUndefined\<close> when it has none).
\<close>

record Request =
  authorization :: "string option"
  session :: "DecodedPayload option option"
  params_tenantId :: "string option"
  body_tenantId :: "jsval option"

text \<open>
  What one middleware call does: it calls \<open>next()\<close>, calls \<open>next(err)\<close>, ends the request
  with \<open>res.status(code).json({message})\<close> without calling \<open>next\<close>, or throws.
\<close>

datatype outcome =
    Next
  | NextErr js_error
  | Responded nat string
  | Threw js_error

section \<open>Authorization guards (core/common/authorization.ts)\<close>

text \<open>\<open>req?.session?.user\<close>\<close>

definition session_user :: "Request \<Rightarrow> DecodedPayload option" where
  "session_user req = (case session req of None \<Rightarrow> None | Some u \<Rightarrow> u)"

definition hasRole :: "string list \<Rightarrow> Request \<Rightarrow> outcome" where
  "hasRole allowed req =
     (case session_user req of
        None \<Rightarrow> Responded HTTP_UNAUTHENTICATED ''Unauthorized - User not authenticated''
      | Some user \<Rightarrow>
          (case roles user of
             None \<Rightarrow> Threw (TypeError ''Cannot read properties of undefined (reading 'some')'')
           | Some rs \<Rightarrow>
               (let hasRequiredRole = list_ex (\<lambda>role. role \<in> set allowed) rs
                in if \<not> hasRequiredRole
                   then Responded HTTP_FORBIDDEN ''Forbidden - Insufficient permissions''
                   else Next)))"



definition isAdmin :: "Request \<Rightarrow> outcome" where
  "isAdmin = hasRole [UserRole_ADMIN, UserRole_MANAGER, UserRole_USER]"

definition isManager :: "Request \<Rightarrow> outcome" where
  "isManager = hasRole [UserRole_MANAGER, UserRole_USER]"

definition isUser :: "Request \<Rightarrow> outcome" where
  "isUser = hasRole [UserRole_USER]"

text \<open>
  A middleware of \<open>authorizeMultiple\<close> acts on the request and response objects and on
  whatever else it can reach; \<open>'s\<close> stands for all of that.  A middleware is modelled by
  the single outcome of its synchronous call, as the guards above have it.  The index
  starts at 0 and grows by one, so \<open>index > middlewares.length\<close> is never reached; there
  \<open>middlewares[index]\<close> is undefined and calling it is a TypeError.
\<close>

function executeMiddleware ::
  "('s \<Rightarrow> outcome \<times> 's) list \<Rightarrow> nat \<Rightarrow> 's \<Rightarrow> outcome \<times> 's" where
  "executeMiddleware middlewares index s =
     (if index = length middlewares then (Next, s)
      else if length middlewares < index
      then (Threw (TypeError ''middlewares[index] is not a function''), s)
      else (case (middlewares ! index) s of
              (Next, s') \<Rightarrow> executeMiddleware middlewares (index + 1) s'
            | (NextErr err, s') \<Rightarrow> (NextErr err, s')
            | (Responded code message, s') \<Rightarrow> (Responded code message, s')
            | (Threw err, s') \<Rightarrow> (Threw err, s')))"
  by pat_completeness auto
termination
  by (relation "measure (\<lambda>(middlewares, index, s). length middlewares - index)") auto

definition authorizeMultiple :: "('s \<Rightarrow> outcome \<times> 's) list \<Rightarrow> 's \<Rightarrow> outcome \<times> 's" where
  "authorizeMultiple middlewares s = executeMiddleware middlewares 0 s"

section \<open>External collaborators\<close>

text \<open>
  The libraries and the environment the code calls, taken as parameters:
  \<^item> \<open>env_JWT_SECRET\<close>: \<open>process.env.JWT_SECRET\<close>;
  \<^item> \<open>hmac_sha256 key data\<close>: the keyed hash the token library signs with;
  \<^item> \<open>bcrypt_genSalt rounds n\<close>: the salt of the \<open>n\<close>-th call of \<open>bcrypt.genSalt\<close>;
  \<^item> \<open>bcrypt_hash data salt\<close>, \<open>bcrypt_compare data encrypted\<close>: bcrypt's \<open>hash\<close> and
    \<open>compare\<close>, which reject (\<open>Inl\<close>) or resolve;
  \<^item> \<open>uuid_generate n\<close>: the \<open>n\<close>-th primary key the database generates.
\<close>

record Platform =
  env_JWT_SECRET :: "string option"
  hmac_sha256 :: "string \<Rightarrow> string \<Rightarrow> string"
  bcrypt_genSalt :: "nat \<Rightarrow> nat \<Rightarrow> string"
  bcrypt_hash :: "string \<Rightarrow> string \<Rightarrow> js_error + string"
  bcrypt_compare :: "string \<Rightarrow> string \<Rightarrow> js_error + bool"
  uuid_generate :: "nat \<Rightarrow> string"

section \<open>String operations of the runtime\<close>

text \<open>\<open>String.prototype.startsWith\<close>, and \<open>String.prototype.split\<close> at a one-character separator.\<close>

definition startsWith :: "string \<Rightarrow> string \<Rightarrow> bool" where
  "startsWith s p = (take (length p) s = p)"

fun js_split :: "char \<Rightarrow> string \<Rightarrow> string list" where
  "js_split sep [] = [[]]"
| "js_split sep (c # cs) =
     (if c = sep then [] # js_split sep cs
      else (case js_split sep cs of
              [] \<Rightarrow> [[c]]
            | w # ws \<Rightarrow> (c # w) # ws))"

text \<open>\<open>xs[i]\<close>: undefined out of range.\<close>

definition at_index :: "'a list \<Rightarrow> nat \<Rightarrow> 'a option" where
  "at_index xs i = (if i < length xs then Some (xs ! i) else None)"

section \<open>The token library\<close>

text \<open>
  Modelled from the spec: the token library (jsonwebtoken), whose \<open>sign\<close> and \<open>verify\<close>
  jwt.ts calls, is not part of the source.  The spec (4.2) has \<open>issue\<close> serialise the
  claims plus an expiration timestamp (now + the validity window), sign with the
  server-held secret and return a compact string, and \<open>verify\<close> check the structure, the
  signature and the expiration.  The compact form is \<open>header.payload.signature\<close>; the
  signature is computed over \<open>header.payload\<close>.  The keyed hash is a parameter
  (\<open>hmac_sha256\<close> of the platform).  The serialisation of a segment (JSON, then
  base64url) is modelled by a self-delimiting encoding over the two characters \<open>0\<close> and
  \<open>1\<close>: what matters of base64url is that it can be decoded and that it produces
  neither a dot nor a space.
\<close>

definition bit_char :: "bool \<Rightarrow> char" where
  "bit_char b = (if b then CHR ''1'' else CHR ''0'')"

fun encode_char :: "char \<Rightarrow> string" where
  "encode_char (Char b0 b1 b2 b3 b4 b5 b6 b7) = map bit_char [b0, b1, b2, b3, b4, b5, b6, b7]"

fun encode_string :: "string \<Rightarrow> string" where
  "encode_string [] = ''0''"
| "encode_string (c # cs) = CHR ''1'' # encode_char c @ encode_string cs"

fun decode_string :: "string \<Rightarrow> (string \<times> string) option" where
  "decode_string [] = None"
| "decode_string (m # rest) =
     (if m = CHR ''0'' then Some ([], rest)
      else if m \<noteq> CHR ''1'' \<or> length rest < 8 then None
      else (case decode_string (drop 8 rest) of
              None \<Rightarrow> None
            | Some (cs, rest') \<Rightarrow>
                Some (Char (rest ! 0 = CHR ''1'') (rest ! 1 = CHR ''1'') (rest ! 2 = CHR ''1'')
                           (rest ! 3 = CHR ''1'') (rest ! 4 = CHR ''1'') (rest ! 5 = CHR ''1'')
                           (rest ! 6 = CHR ''1'') (rest ! 7 = CHR ''1'') # cs, rest')))"

function encode_nat :: "nat \<Rightarrow> string" where
  "encode_nat n =
     (if n = 0 then ''0'' else CHR ''1'' # bit_char (odd n) # encode_nat (n div 2))"
  by pat_completeness auto
termination
  by (relation "measure (\<lambda>n. n)") auto

fun decode_nat :: "string \<Rightarrow> (nat \<times> string) option" where
  "decode_nat [] = None"
| "decode_nat [m] = (if m = CHR ''0'' then Some (0, []) else None)"
| "decode_nat (m # b # rest) =
     (if m = CHR ''0'' then Some (0, b # rest)
      else if m \<noteq> CHR ''1'' then None
      else (case decode_nat rest of
              None \<Rightarrow> None
            | Some (k, rest') \<Rightarrow> Some ((if b = CHR ''1'' then 1 else 0) + 2 * k, rest')))"

fun encode_strings :: "string list \<Rightarrow> string" where
  "encode_strings [] = ''0''"
| "encode_strings (x # xs) = CHR ''1'' # encode_string x @ encode_strings xs"

function decode_strings :: "string \<Rightarrow> (string list \<times> string) option" where
  "decode_strings [] = None"
| "decode_strings (m # rest) =
     (if m = CHR ''0'' then Some ([], rest)
      else if m \<noteq> CHR ''1'' then None
      else (case decode_string rest of
              None \<Rightarrow> None
            | Some (x, rest') \<Rightarrow>
                if length rest < length rest' then None
                else (case decode_strings rest' of
                        None \<Rightarrow> None
                      | Some (xs, rest'') \<Rightarrow> Some (x # xs, rest''))))"
  by pat_completeness auto
termination
  by (relation "measure length") auto

definition encode_roles :: "string list option \<Rightarrow> string" where
  "encode_roles r = (case r of None \<Rightarrow> ''0'' | Some rs \<Rightarrow> CHR ''1'' # encode_strings rs)"

definition decode_roles :: "string \<Rightarrow> (string list option \<times> string) option" where
  "decode_roles s =
     (case s of
        [] \<Rightarrow> None
      | m # rest \<Rightarrow>
          if m = CHR ''0'' then Some (None, rest)
          else if m \<noteq> CHR ''1'' then None
          else (case decode_strings rest of
                  None \<Rightarrow> None
                | Some (rs, rest') \<Rightarrow> Some (Some rs, rest')))"

definition encode_tenant :: "string option \<Rightarrow> string" where
  "encode_tenant t = (case t of None \<Rightarrow> ''0'' | Some x \<Rightarrow> CHR ''1'' # encode_string x)"

definition decode_tenant :: "string \<Rightarrow> (string option \<times> string) option" where
  "decode_tenant s =
     (case s of
        [] \<Rightarrow> None
      | m # rest \<Rightarrow>
          if m = CHR ''0'' then Some (None, rest)
          else if m \<noteq> CHR ''1'' then None
          else (case decode_string rest of
                  None \<Rightarrow> None
                | Some (x, rest') \<Rightarrow> Some (Some x, rest')))"

definition encode_claims :: "DecodedPayload \<Rightarrow> string" where
  "encode_claims d =
     encode_string (userId d) @ encode_string (email d) @ encode_roles (roles d)
       @ encode_tenant (tenantId d) @ encode_nat (iat d) @ encode_nat (exp d)"

definition decode_claims :: "string \<Rightarrow> DecodedPayload option" where
  "decode_claims s =
     (case decode_string s of None \<Rightarrow> None | Some (uid, s1) \<Rightarrow>
      case decode_string s1 of None \<Rightarrow> None | Some (em, s2) \<Rightarrow>
      case decode_roles s2 of None \<Rightarrow> None | Some (rs, s3) \<Rightarrow>
      case decode_tenant s3 of None \<Rightarrow> None | Some (tn, s4) \<Rightarrow>
      case decode_nat s4 of None \<Rightarrow> None | Some (issued, s5) \<Rightarrow>
      case decode_nat s5 of None \<Rightarrow> None | Some (expires, s6) \<Rightarrow>
        if s6 \<noteq> [] then None
        else Some \<lparr>userId = uid, email = em, roles = rs, tenantId = tn,
                   iat = issued, exp = expires\<rparr>)"

text \<open>The claims as \<open>sign\<close> stamps them: \<open>iat\<close> is the clock reading, \<open>exp\<close> the expiry.\<close>

definition stamp :: "JWTPayload \<Rightarrow> nat \<Rightarrow> nat \<Rightarrow> DecodedPayload" where
  "stamp C issued expires =
     \<lparr>userId = userId C, email = email C, roles = roles C, tenantId = tenantId C,
      iat = issued, exp = expires\<rparr>"

definition jwt_header :: string where
  "jwt_header = encode_string ''HS256''"

definition jws_signature :: "Platform \<Rightarrow> string \<Rightarrow> string \<Rightarrow> string" where
  "jws_signature P secret signing_input = encode_string (hmac_sha256 P secret signing_input)"

text \<open>
  Modelled from the spec: \<open>sign\<close> of the token library, absent from the source.  It
  stamps the claims with the clock reading and the expiry, serialises them, and appends
  the signature of \<open>header.payload\<close> under the secret.
\<close>

definition jwt_sign :: "Platform \<Rightarrow> JWTPayload \<Rightarrow> string \<Rightarrow> nat \<Rightarrow> nat \<Rightarrow> string" where
  "jwt_sign P payload secret expiresIn now =
     (let signing_input = jwt_header @ ''.'' @ encode_claims (stamp payload now (now + expiresIn))
      in signing_input @ ''.'' @ jws_signature P secret signing_input)"

text \<open>
  Modelled from the spec: \<open>verify\<close> of the token library, absent from the source, in
  the library's order: three segments or \<open>jwt malformed\<close>; segments that
  decode or \<open>invalid token\<close>; the expected algorithm; the signature recomputed from the
  first two segments and compared; then the expiry, \<open>jwt expired\<close> once the clock has
  reached \<open>exp\<close>.
\<close>

definition jwt_verify :: "Platform \<Rightarrow> string \<Rightarrow> string \<Rightarrow> nat \<Rightarrow> js_error + DecodedPayload" where
  "jwt_verify P tok secret now =
     (let parts = js_split CHR ''.'' tok
      in if length parts \<noteq> 3 then Inl (LibError ''JsonWebTokenError'' ''jwt malformed'')
         else (case decode_claims (parts ! 1) of
                 None \<Rightarrow> Inl (LibError ''JsonWebTokenError'' ''invalid token'')
               | Some payload \<Rightarrow>
                   if parts ! 0 \<noteq> jwt_header
                   then Inl (LibError ''JsonWebTokenError'' ''invalid algorithm'')
                   else if parts ! 2 \<noteq> jws_signature P secret (parts ! 0 @ ''.'' @ parts ! 1)
                   then Inl (LibError ''JsonWebTokenError'' ''invalid signature'')
                   else if exp payload \<le> now
                   then Inl (LibError ''TokenExpiredError'' ''jwt expired'')
                   else Inr payload))"

section \<open>Tokens and sessions (core/common/jwt.ts)\<close>

text \<open>\<open>process.env.JWT_SECRET || 'your-secret-key'\<close>\<close>

definition JWT_SECRET :: "Platform \<Rightarrow> string" where
  "JWT_SECRET P =
     (case env_JWT_SECRET P of
        None \<Rightarrow> ''your-secret-key''
      | Some s \<Rightarrow> if s = [] then ''your-secret-key'' else s)"

text \<open>\<open>'24h'\<close>, in seconds.\<close>

definition TOKEN_EXPIRATION :: nat where
  "TOKEN_EXPIRATION = 24 * 60 * 60"

definition generateToken :: "Platform \<Rightarrow> nat \<Rightarrow> JWTPayload \<Rightarrow> string" where
  "generateToken P now payload = jwt_sign P payload (JWT_SECRET P) TOKEN_EXPIRATION now"

definition verifyToken :: "Platform \<Rightarrow> nat \<Rightarrow> string \<Rightarrow> DecodedPayload option" where
  "verifyToken P now token =
     (case jwt_verify P token (JWT_SECRET P) now of
        Inr payload \<Rightarrow> Some payload
      | Inl error \<Rightarrow> None)"

definition hasValidSession :: "Platform \<Rightarrow> nat \<Rightarrow> string option \<Rightarrow> DecodedPayload option" where
  "hasValidSession P now authHeader =
     (case authHeader of
        None \<Rightarrow> None
      | Some h \<Rightarrow>
          if \<not> startsWith h ''Bearer '' then None
          else (case at_index (js_split CHR '' '' h) 1 of
                  None \<Rightarrow> None
                | Some token \<Rightarrow> if token = [] then None else verifyToken P now token))"

section \<open>Authentication middleware (core/common/authentication.ts)\<close>

text \<open>
  The assignment \<open>req.session.user = jwtPayload\<close> throws when \<open>req.session\<close> is
  undefined; the surrounding \<open>catch\<close> answers 500.
\<close>

definition authenticated :: "Platform \<Rightarrow> nat \<Rightarrow> Request \<Rightarrow> outcome \<times> Request" where
  "authenticated P now req =
     (case hasValidSession P now (authorization req) of
        None \<Rightarrow>
          (Responded HTTP_UNAUTHENTICATED ''Authentication required. Please login to continue.'', req)
      | Some jwtPayload \<Rightarrow>
          (case session req of
             None \<Rightarrow> (Responded HTTP_INTERNAL_SERVER_ERROR ''Authentication check failed'', req)
           | Some u \<Rightarrow> (Next, req\<lparr>session := Some (Some jwtPayload)\<rparr>)))"

section \<open>Password hashing (core/common/bcrypt.ts)\<close>

definition SALT_ROUNDS :: nat where "SALT_ROUNDS = 10"

text \<open>
  The persistent state the services act on: the rows of the \<open>users\<close> table, and how many
  salts and primary keys have been drawn so far.
\<close>

record User =
  user_id :: "string option"
  user_email :: string
  firstName :: "string option"
  lastName :: "string option"
  password :: string
  isActive :: bool
  user_roles :: "string list"
  refreshToken :: "string option"
  lastLoginAt :: "nat option"

record Store =
  users :: "User list"
  salts_drawn :: nat
  uuids_drawn :: nat

text \<open>\<open>error?.message || 'Error hashing password'\<close>\<close>

definition message_or :: "js_error \<Rightarrow> string \<Rightarrow> string" where
  "message_or error dflt = (if error_message error = [] then dflt else error_message error)"

definition hashPassword :: "Platform \<Rightarrow> string \<Rightarrow> Store \<Rightarrow> (js_error + string) \<times> Store" where
  "hashPassword P pw st =
     (let salt = bcrypt_genSalt P SALT_ROUNDS (salts_drawn st);
          st' = st\<lparr>salts_drawn := salts_drawn st + 1\<rparr>
      in case bcrypt_hash P pw salt of
           Inr hashed \<Rightarrow> (Inr hashed, st')
         | Inl error \<Rightarrow>
             (Inl (throwError (message_or error ''Error hashing password'') HTTP_INTERNAL_SERVER_ERROR),
              st'))"

definition verifyPassword :: "Platform \<Rightarrow> string \<Rightarrow> string \<Rightarrow> js_error + bool" where
  "verifyPassword P plainPassword hashedPassword =
     (case bcrypt_compare P plainPassword hashedPassword of
        Inr b \<Rightarrow> Inr b
      | Inl error \<Rightarrow> Inl (throwError ''Error verifying password'' HTTP_INTERNAL_SERVER_ERROR))"

section \<open>The User entity (entity/user.entity.ts)\<close>

text \<open>
  The method \<open>hashPassword\<close> of the entity, registered with \<open>@BeforeInsert()\<close> and
  \<open>@BeforeUpdate()\<close>: it replaces a truthy \<open>this.password\<close> by its hash.
\<close>

definition User_hashPassword :: "Platform \<Rightarrow> User \<Rightarrow> Store \<Rightarrow> (js_error + User) \<times> Store" where
  "User_hashPassword P this st =
     (if password this \<noteq> []
      then (case hashPassword P (password this) st of
              (Inr hashed, st') \<Rightarrow> (Inr (this\<lparr>password := hashed\<rparr>), st')
            | (Inl error, st') \<Rightarrow> (Inl error, st'))
      else (Inr this, st))"

definition User_validatePassword :: "Platform \<Rightarrow> User \<Rightarrow> string \<Rightarrow> js_error + bool" where
  "User_validatePassword P this pw = verifyPassword P pw (password this)"

section \<open>The repository\<close>

text \<open>
  The ORM's repository of the entity, as the services use it.  \<open>create\<close> builds an
  entity without a primary key; the column defaults (\<open>isActive = false\<close>,
  \<open>roles = ['user']\<close>) are filled in here rather than by the insert.  \<open>save\<close> inserts an
  entity whose key is not in the table and updates one whose key is; it runs the entity's
  \<open>@BeforeInsert\<close> listener before an insert, and its \<open>@BeforeUpdate\<close> listener before
  an update, which the ORM performs when the entity differs from the stored row, and
  writes the entity as the listener left it.  Column constraints and the server-managed
  timestamps are not modelled.
\<close>

definition repository_create :: "string \<Rightarrow> string \<Rightarrow> User" where
  "repository_create e pw =
     \<lparr>user_id = None, user_email = e, firstName = None, lastName = None, password = pw,
      isActive = False, user_roles = [''user''], refreshToken = None, lastLoginAt = None\<rparr>"

definition findOne_by_id :: "Store \<Rightarrow> string \<Rightarrow> User option" where
  "findOne_by_id st i = find (\<lambda>u. user_id u = Some i) (users st)"

definition findOne_by_email :: "Store \<Rightarrow> string \<Rightarrow> User option" where
  "findOne_by_email st e = find (\<lambda>u. user_email u = e) (users st)"

definition stored_row :: "Store \<Rightarrow> User \<Rightarrow> User option" where
  "stored_row st entity =
     (case user_id entity of None \<Rightarrow> None | Some i \<Rightarrow> findOne_by_id st i)"

definition insert_row :: "Platform \<Rightarrow> User \<Rightarrow> Store \<Rightarrow> User \<times> Store" where
  "insert_row P entity st =
     (case user_id entity of
        Some i \<Rightarrow> (entity, st\<lparr>users := users st @ [entity]\<rparr>)
      | None \<Rightarrow>
          (let row = entity\<lparr>user_id := Some (uuid_generate P (uuids_drawn st))\<rparr>
           in (row, st\<lparr>users := users st @ [row], uuids_drawn := uuids_drawn st + 1\<rparr>)))"

definition update_row :: "User \<Rightarrow> Store \<Rightarrow> Store" where
  "update_row entity st =
     st\<lparr>users := map (\<lambda>u. if user_id u = user_id entity then entity else u) (users st)\<rparr>"

definition save :: "Platform \<Rightarrow> User \<Rightarrow> Store \<Rightarrow> (js_error + User) \<times> Store" where
  "save P entity st =
     (case stored_row st entity of
        None \<Rightarrow>
          (case User_hashPassword P entity st of
             (Inl error, st') \<Rightarrow> (Inl error, st')
           | (Inr entity', st') \<Rightarrow>
               (case insert_row P entity' st' of (row, st'') \<Rightarrow> (Inr row, st'')))
      | Some old \<Rightarrow>
          if entity = old then (Inr entity, st)
          else (case User_hashPassword P entity st of
                  (Inl error, st') \<Rightarrow> (Inl error, st')
                | (Inr entity', st') \<Rightarrow> (Inr entity', update_row entity' st')))"

section \<open>UserService (services/user)\<close>

text \<open>\<open>Partial<{ email: string; password: string }>\<close>: \<open>None\<close> is a key that is not there.\<close>

record UpdateData =
  upd_email :: "string option"
  upd_password :: "string option"

text \<open>\<open>Object.assign(user, updateData)\<close>\<close>

definition Object_assign :: "User \<Rightarrow> UpdateData \<Rightarrow> User" where
  "Object_assign user updateData =
     user\<lparr>user_email := (case upd_email updateData of None \<Rightarrow> user_email user | Some e \<Rightarrow> e),
          password := (case upd_password updateData of None \<Rightarrow> password user | Some pw \<Rightarrow> pw)\<rparr>"

text \<open>The \<open>id\<close> of a row read from the table; \<open>save\<close> gives every row it inserts one.\<close>

definition row_id :: "User \<Rightarrow> string" where
  "row_id user = (case user_id user of None \<Rightarrow> [] | Some i \<Rightarrow> i)"

definition createUser :: "Platform \<Rightarrow> string \<Rightarrow> string \<Rightarrow> Store \<Rightarrow> (js_error + User) \<times> Store" where
  "createUser P e pw st = save P (repository_create e pw) st"

record AuthResult =
  auth_id :: string
  auth_email :: string
  token :: string

definition authenticateUser ::
  "Platform \<Rightarrow> nat \<Rightarrow> string \<Rightarrow> string \<Rightarrow> Store \<Rightarrow> js_error + AuthResult" where
  "authenticateUser P now e pw st =
     (case findOne_by_email st e of
        None \<Rightarrow> Inl (throwError ''User not found'' HTTP_NOT_FOUND)
      | Some user \<Rightarrow>
          (case User_validatePassword P user pw of
             Inl error \<Rightarrow> Inl error
           | Inr isPasswordValid \<Rightarrow>
               if \<not> isPasswordValid then Inl (throwError ''Invalid password'' HTTP_UNAUTHENTICATED)
               else (let tok = generateToken P now
                                 \<lparr>userId = row_id user, email = user_email user,
                                  roles = None, tenantId = None\<rparr>
                     in Inr \<lparr>auth_id = row_id user, auth_email = user_email user, token = tok\<rparr>)))"

definition getUserById :: "Store \<Rightarrow> string \<Rightarrow> User option" where
  "getUserById st i = findOne_by_id st i"

definition findUserByEmail :: "Store \<Rightarrow> string \<Rightarrow> User option" where
  "findUserByEmail st e = findOne_by_email st e"

definition updateUser ::
  "Platform \<Rightarrow> string \<Rightarrow> UpdateData \<Rightarrow> Store \<Rightarrow> (js_error + User) \<times> Store" where
  "updateUser P i updateData st =
     (case findOne_by_id st i of
        None \<Rightarrow> (Inl (throwError ''User not found'' HTTP_NOT_FOUND), st)
      | Some user \<Rightarrow> save P (Object_assign user updateData) st)"

text \<open>\<open>UserService.verifyPassword\<close> calls \<open>bcrypt.compare\<close> itself.\<close>

definition UserService_verifyPassword :: "Platform \<Rightarrow> string \<Rightarrow> string \<Rightarrow> js_error + bool" where
  "UserService_verifyPassword P pw hashedPassword = bcrypt_compare P pw hashedPassword"

section \<open>AuthService (services/auth/index.ts)\<close>

text \<open>
  The declared result of \<open>login\<close> is \<open>Promise<User | null>\<close>: \<open>Inr None\<close> is the promise
  resolving to null, \<open>Inl\<close> its rejection.  \<open>login_attempt\<close> is the body of the
  \<open>try\<close> block, \<open>login\<close> adds the \<open>catch\<close>.
\<close>

definition login_attempt :: "Platform \<Rightarrow> string \<Rightarrow> string \<Rightarrow> Store \<Rightarrow> js_error + User option" where
  "login_attempt P e pw st =
     (case findUserByEmail st e of
        None \<Rightarrow> Inl (throwError ''User not found'' HTTP_NOT_FOUND)
      | Some user \<Rightarrow>
          (case UserService_verifyPassword P pw (password user) of
             Inl error \<Rightarrow> Inl error
           | Inr isValidPassword \<Rightarrow>
               if \<not> isValidPassword then Inl (throwError ''Invalid password'' HTTP_UNAUTHENTICATED)
               else Inr (Some user)))"

definition login :: "Platform \<Rightarrow> string \<Rightarrow> string \<Rightarrow> Store \<Rightarrow> js_error + User option" where
  "login P e pw st =
     (case login_attempt P e pw st of
        Inr user \<Rightarrow> Inr user
      | Inl error \<Rightarrow>
          Inl (throwError (''Login failed: '' @ error_message error) HTTP_UNAUTHENTICATED))"

definition signup_attempt :: "Platform \<Rightarrow> string \<Rightarrow> string \<Rightarrow> Store \<Rightarrow> (js_error + User) \<times> Store" where
  "signup_attempt P e pw st =
     (case findUserByEmail st e of
        Some existingUser \<Rightarrow> (Inl (throwError ''User already exists'' HTTP_BAD_REQUEST), st)
      | None \<Rightarrow> createUser P e pw st)"

definition signup :: "Platform \<Rightarrow> string \<Rightarrow> string \<Rightarrow> Store \<Rightarrow> (js_error + User) \<times> Store" where
  "signup P e pw st =
     (case signup_attempt P e pw st of
        (Inr newUser, st') \<Rightarrow> (Inr newUser, st')
      | (Inl error, st') \<Rightarrow>
          (Inl (throwError (''Signup failed: '' @ error_message error) HTTP_BAD_REQUEST), st'))"

definition changePassword_attempt ::
  "Platform \<Rightarrow> string \<Rightarrow> string \<Rightarrow> string \<Rightarrow> Store \<Rightarrow> (js_error + bool) \<times> Store" where
  "changePassword_attempt P uid currentPassword newPassword st =
     (case getUserById st uid of
        None \<Rightarrow> (Inl (throwError ''User not found'' HTTP_NOT_FOUND), st)
      | Some user \<Rightarrow>
          (case UserService_verifyPassword P currentPassword (password user) of
             Inl error \<Rightarrow> (Inl error, st)
           | Inr isValidPassword \<Rightarrow>
               if \<not> isValidPassword
               then (Inl (throwError ''Current password is incorrect'' HTTP_UNAUTHENTICATED), st)
               else (case hashPassword P newPassword st of
                       (Inl error, st') \<Rightarrow> (Inl error, st')
                     | (Inr pw, st') \<Rightarrow>
                         (case updateUser P uid \<lparr>upd_email = None, upd_password = Some pw\<rparr> st' of
                            (Inl error, st'') \<Rightarrow> (Inl error, st'')
                          | (Inr updated, st'') \<Rightarrow> (Inr True, st'')))))"

definition changePassword ::
  "Platform \<Rightarrow> string \<Rightarrow> string \<Rightarrow> string \<Rightarrow> Store \<Rightarrow> (js_error + bool) \<times> Store" where
  "changePassword P uid currentPassword newPassword st =
     (case changePassword_attempt P uid currentPassword newPassword st of
        (Inr ok, st') \<Rightarrow> (Inr ok, st')
      | (Inl error, st') \<Rightarrow>
          (Inl (throwError (''Password change failed: '' @ error_message error) HTTP_BAD_REQUEST),
           st'))"

section \<open>A property of the token library\<close>

text \<open>
  \<open>jwt_roundtrip P C t0 now\<close>: asked before the expiry to verify the token issued at
  \<open>t0\<close> for \<open>C\<close> under the server's secret and validity window, the library returns
  the claims as stamped.
\<close>

definition jwt_roundtrip :: "Platform \<Rightarrow> JWTPayload \<Rightarrow> nat \<Rightarrow> nat \<Rightarrow> bool" where
  "jwt_roundtrip P C t0 now =
     (now < t0 + TOKEN_EXPIRATION \<longrightarrow>
        jwt_verify P (jwt_sign P C (JWT_SECRET P) TOKEN_EXPIRATION t0) (JWT_SECRET P) now
          = Inr (stamp C t0 (t0 + TOKEN_EXPIRATION)))"

section \<open>A stand-in platform\<close>

text \<open>
  A small platform on which the model runs at concrete inputs: a keyed hash that writes
  the key in front of the data, a digest that writes the salt in front of the data, and
  the comparison that goes with it.
\<close>

definition standin_hmac :: "string \<Rightarrow> string \<Rightarrow> string" where
  "standin_hmac key data = key @ ''|'' @ data"

definition standin_genSalt :: "nat \<Rightarrow> nat \<Rightarrow> string" where
  "standin_genSalt rounds n = (if even n then ''salt-a'' else ''salt-b'')"

definition standin_hash :: "string \<Rightarrow> string \<Rightarrow> js_error + string" where
  "standin_hash data salt = Inr (salt @ ''$'' @ data)"

definition standin_compare :: "string \<Rightarrow> string \<Rightarrow> js_error + bool" where
  "standin_compare data encrypted =
     Inr (dropWhile (\<lambda>c. c \<noteq> CHR ''$'') encrypted = ''$'' @ data)"

definition standin :: Platform where
  "standin =
     \<lparr>env_JWT_SECRET = None, hmac_sha256 = standin_hmac,
      bcrypt_genSalt = standin_genSalt, bcrypt_hash = standin_hash,
      bcrypt_compare = standin_compare, uuid_generate = (\<lambda>n. ''id-'' @ replicate n CHR ''i'')\<rparr>"

definition alice :: User where
  "alice =
     \<lparr>user_id = Some ''u1'', user_email = ''a@b.com'', firstName = None, lastName = None,
      password = ''salt-z$secret123'', isActive = False, user_roles = [''user''],
      refreshToken = None, lastLoginAt = None\<rparr>"

definition store1 :: Store where
  "store1 = \<lparr>users = [alice], salts_drawn = 0, uuids_drawn = 1\<rparr>"

definition principal_manager :: DecodedPayload where
  "principal_manager =
     \<lparr>userId = ''u1'', email = ''a@b.com'', roles = Some [''manager''], tenantId = Some ''t1'',
      iat = 0, exp = 86400\<rparr>"


definition request_of :: "DecodedPayload \<Rightarrow> string option \<Rightarrow> jsval option \<Rightarrow> Request" where
  "request_of user param body_value =
     \<lparr>authorization = None, session = Some (Some user), params_tenantId = param,
      body_tenantId = body_value\<rparr>"

definition manager_claims :: JWTPayload where
  "manager_claims =
     \<lparr>userId = ''u1'', email = ''a@b.com'', roles = Some [''manager''], tenantId = Some ''t1''\<rparr>"

definition alice_claims :: JWTPayload where
  "alice_claims = \<lparr>userId = ''u1'', email = ''a@b.com'', roles = None, tenantId = None\<rparr>"

text \<open>A token with the right header and unexpired claims, and a signature made up.\<close>

definition forged_token :: string where
  "forged_token = jwt_header @ ''.'' @ encode_claims principal_manager @ ''.forged''"

text \<open>A request that bears a token, on a server with a session object.\<close>

definition bearer_request :: "string \<Rightarrow> Request" where
  "bearer_request tok =
     \<lparr>authorization = Some (''Bearer '' @ tok), session = Some None, params_tenantId = None,
      body_tenantId = Some JUndefined\<rparr>"

text \<open>A guard that rejects, and a stub that counts its calls in the state.\<close>

definition rejecting :: "nat \<Rightarrow> outcome \<times> nat" where
  "rejecting n = (Responded HTTP_FORBIDDEN ''Forbidden - Insufficient permissions'', n)"

definition counting :: "nat \<Rightarrow> outcome \<times> nat" where
  "counting n = (Next, Suc n)"

section \<open>Auxiliary facts\<close>

declare executeMiddleware.simps [simp del]

lemma ex_role_iff: "list_ex (\<lambda>role. role \<in> set allowed) rs \<longleftrightarrow> set rs \<inter> set allowed \<noteq> {}"
  by (auto simp: list_ex_iff)

lemma executeMiddleware_shift:
  "executeMiddleware (m # ms) (Suc index) s = executeMiddleware ms index s"
proof (induction ms index s rule: executeMiddleware.induct)
  case (1 ms index s)
  show ?case
  proof (cases "index < length ms")
    case False
    then show ?thesis
      by (simp add: executeMiddleware.simps [of "m # ms"] executeMiddleware.simps [of ms])
  next
    case True
    obtain out s' where step: "(ms ! index) s = (out, s')" by (cases "(ms ! index) s")
    show ?thesis
    proof (cases out)
      case Next
      with True step 1 show ?thesis
        by (simp add: executeMiddleware.simps [of "m # ms" "Suc index"]
            executeMiddleware.simps [of ms index])
    qed (use True step in \<open>simp_all add: executeMiddleware.simps [of "m # ms" "Suc index"]
            executeMiddleware.simps [of ms index]\<close>)
  qed
qed

lemma authorizeMultiple_Nil: "authorizeMultiple [] s = (Next, s)"
  by (simp add: authorizeMultiple_def executeMiddleware.simps)

lemma authorizeMultiple_Cons:
  "authorizeMultiple (m # ms) s =
     (case m s of (Next, s') \<Rightarrow> authorizeMultiple ms s' | (out, s') \<Rightarrow> (out, s'))"
proof -
  obtain out s' where step: "m s = (out, s')" by (cases "m s")
  show ?thesis
    by (cases out)
       (simp_all add: authorizeMultiple_def step executeMiddleware.simps [of "m # ms" 0]
          executeMiddleware_shift [of m ms 0, simplified])
qed

lemma authorizeMultiple_append_pass:
  "authorizeMultiple pre s = (Next, s1) \<Longrightarrow>
   authorizeMultiple (pre @ post) s = authorizeMultiple post s1"
proof (induction pre arbitrary: s)
  case Nil
  then show ?case by (simp add: authorizeMultiple_Nil)
next
  case (Cons m pre)
  obtain out s' where step: "m s = (out, s')" by (cases "m s")
  from Cons.prems step have "out = Next"
    by (cases out) (simp_all add: authorizeMultiple_Cons)
  with Cons step show ?case
    by (simp add: authorizeMultiple_Cons)
qed

lemma authorizeMultiple_reject_at:
  assumes "authorizeMultiple pre s = (Next, s1)" and "g s1 = (out, s2)" and "out \<noteq> Next"
  shows "authorizeMultiple (pre @ g # rest) s = (out, s2)"
proof -
  have "authorizeMultiple (pre @ g # rest) s = authorizeMultiple (g # rest) s1"
    using assms(1) by (rule authorizeMultiple_append_pass)
  also have "\<dots> = (out, s2)"
    using assms(2,3) by (cases out) (simp_all add: authorizeMultiple_Cons)
  finally show ?thesis .
qed

lemma authorizeMultiple_all_pass:
  "(\<forall>pre g rest s1. ms = pre @ g # rest \<longrightarrow> authorizeMultiple pre s = (Next, s1) \<longrightarrow> fst (g s1) = Next)
   \<Longrightarrow> fst (authorizeMultiple ms s) = Next"
proof (induction ms rule: rev_induct)
  case Nil
  then show ?case by (simp add: authorizeMultiple_Nil)
next
  case (snoc g ms)
  have "fst (authorizeMultiple ms s) = Next"
  proof (rule snoc.IH, intro allI impI)
    fix pre g' rest s1
    assume "ms = pre @ g' # rest" and p: "authorizeMultiple pre s = (Next, s1)"
    then have "ms @ [g] = pre @ g' # (rest @ [g])" by simp
    with snoc.prems p show "fst (g' s1) = Next" by blast
  qed
  then obtain s1 where p: "authorizeMultiple ms s = (Next, s1)"
    by (cases "authorizeMultiple ms s") simp
  have "fst (g s1) = Next"
    using snoc.prems p by blast
  then obtain s2 where "g s1 = (Next, s2)" by (cases "g s1") simp
  with p show ?case
    by (simp add: authorizeMultiple_append_pass [OF p] authorizeMultiple_Cons authorizeMultiple_Nil)
qed

lemma find_update_row:
  "find (\<lambda>u. user_id u = Some i) rows = Some old \<Longrightarrow> user_id entity = Some i \<Longrightarrow>
   find (\<lambda>u. user_id u = Some i) (map (\<lambda>u. if user_id u = Some i then entity else u) rows)
     = Some entity"
  by (induction rows) (auto split: if_splits)

lemma findOne_by_id_user_id: "findOne_by_id st i = Some user \<Longrightarrow> user_id user = Some i"
  by (auto simp: findOne_by_id_def find_Some_iff)

lemma findOne_by_id_salts [simp]:
  "findOne_by_id (st\<lparr>salts_drawn := n\<rparr>) i = findOne_by_id st i"
  by (simp add: findOne_by_id_def)

lemma findOne_by_id_update_row:
  "findOne_by_id st i = Some old \<Longrightarrow> user_id entity = Some i \<Longrightarrow>
   findOne_by_id (update_row entity st) i = Some entity"
  by (simp add: findOne_by_id_def update_row_def find_update_row)

lemma save_changed_row:
  assumes found: "findOne_by_id st i = Some old"
    and ident: "user_id entity = Some i"
    and changed: "entity \<noteq> old"
    and truthy_pw: "password entity \<noteq> []"
    and hashed: "bcrypt_hash P (password entity) (bcrypt_genSalt P SALT_ROUNDS (salts_drawn st)) = Inr h"
  shows "\<exists>st'. save P entity st = (Inr (entity\<lparr>password := h\<rparr>), st')
           \<and> findOne_by_id st' i = Some (entity\<lparr>password := h\<rparr>)
           \<and> salts_drawn st' = salts_drawn st + 1"
proof -
  let ?st1 = "st\<lparr>salts_drawn := salts_drawn st + 1\<rparr>"
  let ?e = "entity\<lparr>password := h\<rparr>"
  have hook: "User_hashPassword P entity st = (Inr ?e, ?st1)"
    using truthy_pw hashed by (simp add: User_hashPassword_def hashPassword_def Let_def)
  have row: "stored_row st entity = Some old"
    using found ident by (simp add: stored_row_def)
  have sv: "save P entity st = (Inr ?e, update_row ?e ?st1)"
    using row changed hook by (simp add: save_def)
  have "findOne_by_id ?st1 i = Some old" using found by simp
  then have "findOne_by_id (update_row ?e ?st1) i = Some ?e"
    by (rule findOne_by_id_update_row) (simp add: ident)
  moreover have "salts_drawn (update_row ?e ?st1) = salts_drawn st + 1"
    by (simp add: update_row_def)
  ultimately show ?thesis using sv by blast
qed

lemma createUser_hashes_once:
  assumes "pw \<noteq> []"
    and "bcrypt_hash P pw (bcrypt_genSalt P SALT_ROUNDS (salts_drawn st)) = Inr h"
  shows "\<exists>st' row. createUser P e pw st = (Inr row, st') \<and> password row = h
           \<and> users st' = users st @ [row]"
  using assms
  by (simp add: createUser_def save_def stored_row_def repository_create_def
      User_hashPassword_def hashPassword_def insert_row_def Let_def)

declare encode_nat.simps [simp del]

lemma decode_encode_string: "decode_string (encode_string s @ rest) = Some (s, rest)"
proof (induction s)
  case Nil
  show ?case by simp
next
  case (Cons c cs)
  show ?case
    by (cases c) (simp add: Cons.IH bit_char_def)
qed

lemma decode_encode_nat: "decode_nat (encode_nat n @ rest) = Some (n, rest)"
proof (induction n arbitrary: rest rule: encode_nat.induct)
  case (1 n)
  show ?case
  proof (cases "n = 0")
    case True
    then show ?thesis by (cases rest) (simp_all add: encode_nat.simps [of 0])
  next
    case False
    have "(if odd n then 1 else 0) + 2 * (n div 2) = n" by presburger
    with False 1 show ?thesis
      by (simp add: encode_nat.simps [of n] bit_char_def)
  qed
qed

lemma decode_string_shorter: "decode_string s = Some (x, rest) \<Longrightarrow> length rest \<le> length s"
proof (induction s arbitrary: x rest rule: decode_string.induct)
  case 1
  then show ?case by simp
next
  case (2 m r)
  show ?case
  proof (cases "m = CHR ''0''")
    case True
    with 2 show ?thesis by auto
  next
    case False
    with "2.prems" obtain cs where d: "decode_string (drop 8 r) = Some (cs, rest)"
      and ok: "m = CHR ''1''" "\<not> length r < 8"
      by (auto split: if_splits option.splits)
    from "2.IH" [OF False _ d] ok have "length rest \<le> length (drop 8 r)" by simp
    then show ?thesis by simp
  qed
qed

lemma decode_encode_strings: "decode_strings (encode_strings xs @ rest) = Some (xs, rest)"
  by (induction xs) (simp_all add: decode_encode_string)

lemma decode_encode_roles: "decode_roles (encode_roles r @ rest) = Some (r, rest)"
  by (cases r) (simp_all add: decode_roles_def encode_roles_def decode_encode_strings)

lemma decode_encode_tenant: "decode_tenant (encode_tenant t @ rest) = Some (t, rest)"
  by (cases t) (simp_all add: decode_tenant_def encode_tenant_def decode_encode_string)

lemma decode_encode_claims: "decode_claims (encode_claims d) = Some d"
proof -
  have "decode_nat (encode_nat (exp d)) = Some (exp d, [])"
    using decode_encode_nat [of "exp d" "[]"] by simp
  then show ?thesis
    by (simp add: decode_claims_def encode_claims_def decode_encode_string decode_encode_roles
        decode_encode_tenant decode_encode_nat)
qed

text \<open>The segments are written with \<open>0\<close> and \<open>1\<close> only.\<close>

lemma set_encode_char: "set (encode_char c) \<subseteq> {CHR ''0'', CHR ''1''}"
  by (cases c) (simp add: bit_char_def)

lemma set_encode_string: "set (encode_string s) \<subseteq> {CHR ''0'', CHR ''1''}"
  using set_encode_char by (induction s) auto

lemma set_encode_strings: "set (encode_strings xs) \<subseteq> {CHR ''0'', CHR ''1''}"
  using set_encode_string by (induction xs) auto

lemma set_encode_nat: "set (encode_nat n) \<subseteq> {CHR ''0'', CHR ''1''}"
proof (induction n rule: encode_nat.induct)
  case (1 n)
  then show ?case
    by (cases "n = 0") (auto simp: encode_nat.simps [of n] encode_nat.simps [of 0] bit_char_def)
qed

lemma set_encode_claims: "set (encode_claims d) \<subseteq> {CHR ''0'', CHR ''1''}"
  using set_encode_string [of "userId d"] set_encode_string [of "email d"]
    set_encode_nat [of "iat d"] set_encode_nat [of "exp d"]
    set_encode_strings set_encode_string
  by (auto simp: encode_claims_def encode_roles_def encode_tenant_def split: option.splits)

lemma set_jwt_header: "set jwt_header \<subseteq> {CHR ''0'', CHR ''1''}"
  unfolding jwt_header_def by (rule set_encode_string)

lemma set_jws_signature: "set (jws_signature P secret input) \<subseteq> {CHR ''0'', CHR ''1''}"
  unfolding jws_signature_def by (rule set_encode_string)

lemma js_split_no_sep: "sep \<notin> set w \<Longrightarrow> js_split sep w = [w]"
  by (induction w) auto

lemma js_split_first: "sep \<notin> set w \<Longrightarrow> js_split sep (w @ sep # rest) = w # js_split sep rest"
  by (induction w) auto

lemma js_split_three:
  assumes "sep \<notin> set a" and "sep \<notin> set b" and "sep \<notin> set c"
  shows "js_split sep (a @ sep # b @ sep # c) = [a, b, c]"
  using assms by (simp add: js_split_first js_split_no_sep)

lemma no_dot_binary: "set w \<subseteq> {CHR ''0'', CHR ''1''} \<Longrightarrow> CHR ''.'' \<notin> set w"
  by auto

lemma jwt_sign_parts:
  "js_split CHR ''.'' (jwt_sign P C secret ttl t0)
     = [jwt_header, encode_claims (stamp C t0 (t0 + ttl)),
        jws_signature P secret (jwt_header @ ''.'' @ encode_claims (stamp C t0 (t0 + ttl)))]"
proof -
  have "js_split CHR ''.'' (jwt_header @ CHR ''.'' # encode_claims (stamp C t0 (t0 + ttl)) @ CHR ''.'' #
          jws_signature P secret (jwt_header @ ''.'' @ encode_claims (stamp C t0 (t0 + ttl))))
        = [jwt_header, encode_claims (stamp C t0 (t0 + ttl)),
           jws_signature P secret (jwt_header @ ''.'' @ encode_claims (stamp C t0 (t0 + ttl)))]"
    by (rule js_split_three)
       (rule no_dot_binary, rule set_jwt_header set_encode_claims set_jws_signature)+
  then show ?thesis by (simp add: jwt_sign_def Let_def)
qed

lemma jwt_verify_sign:
  "jwt_verify P (jwt_sign P C secret ttl t0) secret now =
     (if t0 + ttl \<le> now then Inl (LibError ''TokenExpiredError'' ''jwt expired'')
      else Inr (stamp C t0 (t0 + ttl)))"
  by (simp add: jwt_verify_def jwt_sign_parts decode_encode_claims Let_def) (simp add: stamp_def)

lemma set_jwt_sign: "set (jwt_sign P C secret ttl t0) \<subseteq> {CHR ''0'', CHR ''1'', CHR ''.''}"
  using set_encode_claims [of "stamp C t0 (t0 + ttl)"] set_jwt_header
    set_jws_signature [of P secret "jwt_header @ ''.'' @ encode_claims (stamp C t0 (t0 + ttl))"]
  by (auto simp: jwt_sign_def Let_def)

lemma hasValidSession_bearer:
  assumes "tok \<noteq> []" and "CHR '' '' \<notin> set tok"
  shows "hasValidSession P now (Some (''Bearer '' @ tok)) = verifyToken P now tok"
proof -
  have "js_split CHR '' '' (''Bearer'' @ CHR '' '' # tok) = ''Bearer'' # js_split CHR '' '' tok"
    by (rule js_split_first) simp
  then have "js_split CHR '' '' (''Bearer '' @ tok) = [''Bearer'', tok]"
    using assms(2) by (simp add: js_split_no_sep)
  then show ?thesis
    using assms(1) by (simp add: hasValidSession_def startsWith_def at_index_def)
qed

lemma authenticateUser_token:
  assumes "authenticateUser P t0 e pw st = Inr r"
  shows "\<exists>user. findOne_by_email st e = Some user
           \<and> token r = generateToken P t0 \<lparr>userId = row_id user, email = user_email user,
                                           roles = None, tenantId = None\<rparr>"
  using assms
  by (auto simp: authenticateUser_def Let_def split: option.splits sum.splits if_splits)

lemma length_three: "length xs = 3 \<Longrightarrow> \<exists>a b c. xs = [a, b, c]"
  by (cases xs; cases "tl xs"; cases "tl (tl xs)") auto

lemma verifyToken_Some_iff:
  "verifyToken P now tok = Some d \<longleftrightarrow>
     (\<exists>p. js_split CHR ''.'' tok
             = [jwt_header, p, jws_signature P (JWT_SECRET P) (jwt_header @ ''.'' @ p)]
          \<and> decode_claims p = Some d \<and> now < exp d)"
proof
  assume v: "verifyToken P now tok = Some d"
  then have len: "length (js_split CHR ''.'' tok) = 3"
    by (auto simp: verifyToken_def jwt_verify_def Let_def split: sum.splits if_splits)
  then obtain h p s where parts: "js_split CHR ''.'' tok = [h, p, s]"
    using length_three by blast
  from v parts have "h = jwt_header \<and> s = jws_signature P (JWT_SECRET P) (h @ ''.'' @ p)
      \<and> decode_claims p = Some d \<and> now < exp d"
    by (auto simp: verifyToken_def jwt_verify_def Let_def
        split: sum.splits if_splits option.splits)
  with parts show "\<exists>p. js_split CHR ''.'' tok
             = [jwt_header, p, jws_signature P (JWT_SECRET P) (jwt_header @ ''.'' @ p)]
          \<and> decode_claims p = Some d \<and> now < exp d"
    by blast
next
  assume "\<exists>p. js_split CHR ''.'' tok
             = [jwt_header, p, jws_signature P (JWT_SECRET P) (jwt_header @ ''.'' @ p)]
          \<and> decode_claims p = Some d \<and> now < exp d"
  then show "verifyToken P now tok = Some d"
    by (auto simp: verifyToken_def jwt_verify_def Let_def)
qed

lemma jwt_roundtrip_holds: "jwt_roundtrip P C t0 now"
  by (simp add: jwt_roundtrip_def jwt_verify_sign)

lemma generateToken_nonempty: "generateToken P t0 C \<noteq> []"
  by (simp add: generateToken_def jwt_sign_def Let_def)

lemma generateToken_no_space: "CHR '' '' \<notin> set (generateToken P t0 C)"
  using set_jwt_sign [of P C "JWT_SECRET P" TOKEN_EXPIRATION t0]
  by (auto simp: generateToken_def)

section \<open>The claims\<close>

text \<open>
  Claim C1 (password hashed exactly once on every mutation that sets it).  For
  \<open>createUser\<close> the entity's listener hashes the plaintext once
  (\<open>createUser_hashes_once\<close> above).  \<open>changePassword\<close> does not: it hashes the new
  password itself and hands the digest to \<open>updateUser\<close>, whose \<open>save\<close> runs the
  \<open>@BeforeUpdate\<close> listener on it.  Whenever the current password verifies and both
  digests are computed, the row stored afterwards holds \<open>h2\<close>, the digest of the digest
  \<open>h1\<close> of the new password.
\<close>

theorem changePassword_hashes_twice:
  assumes "getUserById st uid = Some user"
    and "bcrypt_compare P currentPassword (password user) = Inr True"
    and "bcrypt_hash P newPassword (bcrypt_genSalt P SALT_ROUNDS (salts_drawn st)) = Inr h1"
    and "h1 \<noteq> []" and "h1 \<noteq> password user"
    and "bcrypt_hash P h1 (bcrypt_genSalt P SALT_ROUNDS (salts_drawn st + 1)) = Inr h2"
  shows "\<exists>st' row. changePassword P uid currentPassword newPassword st = (Inr True, st')
           \<and> findOne_by_id st' uid = Some row
           \<and> password row = h2"
proof -
  let ?st1 = "st\<lparr>salts_drawn := salts_drawn st + 1\<rparr>"
  let ?entity = "Object_assign user \<lparr>upd_email = None, upd_password = Some h1\<rparr>"
  have found: "findOne_by_id st uid = Some user"
    using assms(1) by (simp add: getUserById_def)
  have found1: "findOne_by_id ?st1 uid = Some user"
    using found by simp
  have e: "?entity = user\<lparr>password := h1\<rparr>"
    by (simp add: Object_assign_def)
  have ident: "user_id ?entity = Some uid"
    using findOne_by_id_user_id [OF found] by (simp add: e)
  have changed: "?entity \<noteq> user"
  proof
    assume "?entity = user"
    then have "password ?entity = password user" by simp
    with assms(5) show False by (simp add: e)
  qed
  have first: "hashPassword P newPassword st = (Inr h1, ?st1)"
    using assms(3) by (simp add: hashPassword_def Let_def)
  have "password ?entity \<noteq> []" using assms(4) by (simp add: e)
  moreover have "bcrypt_hash P (password ?entity) (bcrypt_genSalt P SALT_ROUNDS (salts_drawn ?st1)) = Inr h2"
    using assms(6) by (simp add: e)
  ultimately obtain st' where sv: "save P ?entity ?st1 = (Inr (?entity\<lparr>password := h2\<rparr>), st')"
    and row: "findOne_by_id st' uid = Some (?entity\<lparr>password := h2\<rparr>)"
    using save_changed_row [OF found1 ident changed, of P h2] by auto
  have "updateUser P uid \<lparr>upd_email = None, upd_password = Some h1\<rparr> ?st1
          = (Inr (?entity\<lparr>password := h2\<rparr>), st')"
    using found1 sv by (simp add: updateUser_def)
  then have "changePassword P uid currentPassword newPassword st = (Inr True, st')"
    using assms(1,2) first
    by (simp add: changePassword_def changePassword_attempt_def UserService_verifyPassword_def)
  with row show ?thesis by simp
qed

theorem changePassword_hashes_twice_witness:
  "getUserById store1 ''u1'' = Some alice
   \<and> bcrypt_compare standin ''secret123'' (password alice) = Inr True
   \<and> (\<exists>st' row. changePassword standin ''u1'' ''secret123'' ''newpass'' store1 = (Inr True, st')
          \<and> findOne_by_id st' ''u1'' = Some row
          \<and> password row = ''salt-b$salt-a$newpass''
          \<and> bcrypt_compare standin ''newpass'' (password row) = Inr False)"
  using changePassword_hashes_twice [of store1 "''u1''" alice standin "''secret123''" "''newpass''"
      "''salt-a$newpass''" "''salt-b$salt-a$newpass''"]
  by (auto simp: getUserById_def findOne_by_id_def store1_def alice_def standin_def
      standin_compare_def standin_hash_def standin_genSalt_def)

text \<open>
  Claim C2 (a mutation that does not touch the password leaves the stored hash alone).
  The listener does not look at which fields changed: an update of the email address
  alone makes \<open>save\<close> run it, and the row stored afterwards holds the digest of the
  hash that was stored before.
\<close>

theorem updateUser_email_rehashes:
  assumes "findOne_by_id st uid = Some user"
    and "newEmail \<noteq> user_email user"
    and "password user \<noteq> []"
    and "bcrypt_hash P (password user) (bcrypt_genSalt P SALT_ROUNDS (salts_drawn st)) = Inr rehashed"
  shows "\<exists>st' row. updateUser P uid \<lparr>upd_email = Some newEmail, upd_password = None\<rparr> st = (Inr row, st')
           \<and> findOne_by_id st' uid = Some row
           \<and> user_email row = newEmail
           \<and> password row = rehashed"
proof -
  let ?entity = "Object_assign user \<lparr>upd_email = Some newEmail, upd_password = None\<rparr>"
  have e: "?entity = user\<lparr>user_email := newEmail\<rparr>"
    by (simp add: Object_assign_def)
  have ident: "user_id ?entity = Some uid"
    using findOne_by_id_user_id [OF assms(1)] by (simp add: e)
  have changed: "?entity \<noteq> user"
  proof
    assume "?entity = user"
    then have "user_email ?entity = user_email user" by simp
    with assms(2) show False by (simp add: e)
  qed
  have pw: "password ?entity = password user" by (simp add: e)
  from save_changed_row [OF assms(1) ident changed, of P rehashed] assms(3,4) pw
  obtain st' where "save P ?entity st = (Inr (?entity\<lparr>password := rehashed\<rparr>), st')"
    and "findOne_by_id st' uid = Some (?entity\<lparr>password := rehashed\<rparr>)"
    by auto
  then show ?thesis
    using assms(1) by (simp add: updateUser_def e)
qed

theorem updateUser_email_rehashes_witness:
  "findOne_by_id store1 ''u1'' = Some alice
   \<and> password alice = ''salt-z$secret123''
   \<and> (\<exists>st' row. updateUser standin ''u1'' \<lparr>upd_email = Some ''new@b.com'', upd_password = None\<rparr> store1
            = (Inr row, st')
          \<and> findOne_by_id st' ''u1'' = Some row
          \<and> password row = ''salt-a$salt-z$secret123''
          \<and> bcrypt_compare standin ''secret123'' (password row) = Inr False)"
  using updateUser_email_rehashes [of store1 "''u1''" alice "''new@b.com''" standin
      "''salt-a$salt-z$secret123''"]
  by (auto simp: findOne_by_id_def store1_def alice_def standin_def
      standin_compare_def standin_hash_def standin_genSalt_def)




text \<open>
  Claim C4 (role guard).  For a principal with a roles array, \<open>hasRole allowed\<close> calls
  \<open>next()\<close> exactly when some role of the principal is among \<open>allowed\<close>, and answers
  403 otherwise; without a principal it answers 401, a different status code.  A principal
  with the single role \<open>manager\<close> passes \<open>[admin, manager]\<close> and does not pass
  \<open>[admin]\<close>.
\<close>

theorem hasRole_outcomes:
  "(session_user req = Some u \<and> roles u = Some rs \<longrightarrow>
      (hasRole allowed req = Next \<longleftrightarrow> set rs \<inter> set allowed \<noteq> {}) \<and>
      (set rs \<inter> set allowed = {} \<longrightarrow>
         hasRole allowed req = Responded HTTP_FORBIDDEN ''Forbidden - Insufficient permissions''))
   \<and> (session_user req = None \<longrightarrow>
         hasRole allowed req = Responded HTTP_UNAUTHENTICATED ''Unauthorized - User not authenticated'')
   \<and> HTTP_UNAUTHENTICATED \<noteq> HTTP_FORBIDDEN
   \<and> (session_user req = Some u \<and> roles u = Some [UserRole_MANAGER] \<longrightarrow>
         hasRole [UserRole_ADMIN, UserRole_MANAGER] req = Next \<and>
         hasRole [UserRole_ADMIN] req \<noteq> Next)"
  by (auto simp: hasRole_def ex_role_iff HTTP_UNAUTHENTICATED_def HTTP_FORBIDDEN_def
      UserRole_MANAGER_def UserRole_ADMIN_def)

theorem hasRole_outcomes_witness:
  "session_user (request_of principal_manager None (Some JUndefined)) = Some principal_manager
   \<and> roles principal_manager = Some [UserRole_MANAGER]
   \<and> hasRole [UserRole_ADMIN, UserRole_MANAGER] (request_of principal_manager None (Some JUndefined)) = Next
   \<and> hasRole [UserRole_ADMIN] (request_of principal_manager None (Some JUndefined))
       = Responded HTTP_FORBIDDEN ''Forbidden - Insufficient permissions''"
  using hasRole_outcomes [of "request_of principal_manager None (Some JUndefined)" principal_manager
      "[UserRole_MANAGER]" "[UserRole_ADMIN]"]
    hasRole_outcomes [of "request_of principal_manager None (Some JUndefined)" principal_manager
      "[UserRole_MANAGER]" "[UserRole_ADMIN, UserRole_MANAGER]"]
  by (simp add: session_user_def request_of_def principal_manager_def
      UserRole_MANAGER_def UserRole_ADMIN_def)

text \<open>
  Claim C5 (guard composition).  If the guards of \<open>pre\<close>, run in order from state
  \<open>s\<close>, all call \<open>next()\<close> and lead to state \<open>s1\<close>, and the next guard \<open>g\<close> does
  anything else there, then \<open>authorizeMultiple\<close> ends with the outcome and the state of
  \<open>g\<close>, whatever guards \<open>rest\<close> follow: none of them has acted on the state.  And the
  composed middleware calls \<open>next()\<close>, which is what lets the protected handler run,
  exactly when every guard, run in the state its predecessors left, calls \<open>next()\<close>.
  The order is the order of the list: the first guard runs on the initial state, and the
  others run, on the state it left, only if it called \<open>next()\<close>.
\<close>

theorem authorizeMultiple_short_circuit:
  "(authorizeMultiple pre s = (Next, s1) \<and> g s1 = (out, s2) \<and> out \<noteq> Next \<longrightarrow>
      authorizeMultiple (pre @ g # rest) s = (out, s2))
   \<and> (fst (authorizeMultiple ms s) = Next \<longleftrightarrow>
        (\<forall>pre g rest s1. ms = pre @ g # rest \<longrightarrow> authorizeMultiple pre s = (Next, s1) \<longrightarrow>
            fst (g s1) = Next))
   \<and> authorizeMultiple [] s = (Next, s)
   \<and> authorizeMultiple (g # rest) s =
        (if fst (g s) = Next then authorizeMultiple rest (snd (g s)) else g s)"
proof -
  have stop: "authorizeMultiple pre s = (Next, s1) \<and> g s1 = (out, s2) \<and> out \<noteq> Next \<longrightarrow>
      authorizeMultiple (pre @ g # rest) s = (out, s2)"
    by (blast intro: authorizeMultiple_reject_at)
  have "fst (g' s1') = Next"
    if pass: "fst (authorizeMultiple ms s) = Next"
      and ms: "ms = pre' @ g' # rest'" and p: "authorizeMultiple pre' s = (Next, s1')"
    for pre' g' rest' s1'
  proof (rule ccontr)
    assume n: "fst (g' s1') \<noteq> Next"
    obtain o' s2' where st: "g' s1' = (o', s2')" by (cases "g' s1'")
    with n have o: "o' \<noteq> Next" by simp
    have "authorizeMultiple (pre' @ g' # rest') s = (o', s2')"
      using p st o by (rule authorizeMultiple_reject_at)
    with ms pass o show False by simp
  qed
  then have handler: "fst (authorizeMultiple ms s) = Next \<longleftrightarrow>
        (\<forall>pre g rest s1. ms = pre @ g # rest \<longrightarrow> authorizeMultiple pre s = (Next, s1) \<longrightarrow>
            fst (g s1) = Next)"
    using authorizeMultiple_all_pass [of ms s] by blast
  have first: "authorizeMultiple (g # rest) s =
        (if fst (g s) = Next then authorizeMultiple rest (snd (g s)) else g s)"
  proof -
    obtain o' s' where st: "g s = (o', s')" by (cases "g s")
    show ?thesis by (cases o') (simp_all add: authorizeMultiple_Cons st)
  qed
  show ?thesis
    using stop handler first authorizeMultiple_Nil [of s] by (intro conjI)
qed

theorem authorizeMultiple_short_circuit_witness:
  "authorizeMultiple [counting] 0 = (Next, 1)
   \<and> rejecting 1 = (Responded HTTP_FORBIDDEN ''Forbidden - Insufficient permissions'', 1)
   \<and> authorizeMultiple ([counting] @ rejecting # [counting, counting]) 0
       = (Responded HTTP_FORBIDDEN ''Forbidden - Insufficient permissions'', 1)
   \<and> fst (authorizeMultiple [counting, counting] 0) = Next"
  using authorizeMultiple_short_circuit [of "[counting]" 0 1 rejecting
      "Responded HTTP_FORBIDDEN ''Forbidden - Insufficient permissions''" 1 "[counting, counting]"
      "[counting, counting]"]
  by (simp add: authorizeMultiple_Cons authorizeMultiple_Nil counting_def rejecting_def)

text \<open>
  Claim C6 (session resolver on unusable headers).  \<open>hasValidSession\<close> returns null for
  an absent header, for the empty string, for every header that does not start with
  \<open>Bearer \<close> (such as \<open>Basic xyz\<close>), and when nothing stands between the prefix and
  the end of the header or the next space.  The function has no error result: nothing in it
  can throw, since \<open>verifyToken\<close> catches what the library throws.
\<close>

theorem hasValidSession_null:
  "hasValidSession P now None = None
   \<and> hasValidSession P now (Some []) = None
   \<and> (\<not> startsWith h ''Bearer '' \<longrightarrow> hasValidSession P now (Some h) = None)
   \<and> hasValidSession P now (Some ''Basic xyz'') = None
   \<and> hasValidSession P now (Some ''Bearer '') = None
   \<and> hasValidSession P now (Some (''Bearer '' @ CHR '' '' # rest)) = None"
  by (auto simp: hasValidSession_def startsWith_def at_index_def split: list.splits)

theorem hasValidSession_null_witness:
  "\<not> startsWith ''Basic xyz'' ''Bearer '' \<and> hasValidSession standin 0 (Some ''Basic xyz'') = None"
  using hasValidSession_null [of standin 0 "''Basic xyz''"]
  by (simp add: startsWith_def)

text \<open>
  Claim C7 (issue then verify).  A token issued for the claims \<open>C\<close> at \<open>t0\<close> and
  verified at \<open>now\<close>, before its expiry \<open>t0 + TOKEN_EXPIRATION\<close>, yields a payload whose
  \<open>userId\<close>, \<open>email\<close>, \<open>roles\<close> and \<open>tenantId\<close> are those of \<open>C\<close>; its \<open>iat\<close> and
  \<open>exp\<close> are the time of issue and the expiry.
\<close>

theorem verifyToken_generateToken:
  assumes "now < t0 + TOKEN_EXPIRATION"
  shows "\<exists>d. verifyToken P now (generateToken P t0 C) = Some d
           \<and> userId d = userId C \<and> email d = email C
           \<and> roles d = roles C \<and> tenantId d = tenantId C
           \<and> iat d = t0 \<and> exp d = t0 + TOKEN_EXPIRATION"
  using assms by (simp add: verifyToken_def generateToken_def jwt_verify_sign stamp_def)

theorem verifyToken_generateToken_witness:
  "(100::nat) < 0 + TOKEN_EXPIRATION
   \<and> verifyToken standin 100 (generateToken standin 0 manager_claims) = Some principal_manager"
proof -
  have before: "(100::nat) < 0 + TOKEN_EXPIRATION"
    by (simp add: TOKEN_EXPIRATION_def)
  from verifyToken_generateToken [OF before, of standin manager_claims]
  obtain d where v: "verifyToken standin 100 (generateToken standin 0 manager_claims) = Some d"
    and fields: "userId d = userId manager_claims" "email d = email manager_claims"
      "roles d = roles manager_claims" "tenantId d = tenantId manager_claims"
      "iat d = 0" "exp d = 0 + TOKEN_EXPIRATION"
    by blast
  have "d = principal_manager"
    using fields by (cases d) (simp add: principal_manager_def manager_claims_def TOKEN_EXPIRATION_def)
  with v before show ?thesis by simp
qed

text \<open>
  Claim C8 (uniform verification failure).  \<open>verifyToken\<close> returns null for a token that
  does not have three segments, for one whose claims segment does not decode, for one whose
  signature segment is not the signature of its first two segments under the server's
  secret, and for one whose claims carry an expiry that the clock has reached, whatever
  its signature segment is; in particular for every token this server issued, once
  expired.  It returns a payload exactly for a token with the expected header, claims
  that decode, the right signature and an expiry still ahead.  Every failure gives the
  same value: whatever the library throws, \<open>verifyToken\<close> returns null, and null is
  returned in no other case.
\<close>

theorem verifyToken_uniform_failure:
  "(length (js_split CHR ''.'' tok) \<noteq> 3 \<longrightarrow> verifyToken P now tok = None)
   \<and> (js_split CHR ''.'' tok = [h, p, s] \<and> decode_claims p = None \<longrightarrow>
        verifyToken P now tok = None)
   \<and> (js_split CHR ''.'' tok = [h, p, s] \<and> s \<noteq> jws_signature P (JWT_SECRET P) (h @ ''.'' @ p) \<longrightarrow>
        verifyToken P now tok = None)
   \<and> (js_split CHR ''.'' tok = [h, p, s] \<and> decode_claims p = Some d \<and> exp d \<le> now \<longrightarrow>
        verifyToken P now tok = None)
   \<and> (t0 + TOKEN_EXPIRATION \<le> now \<longrightarrow> verifyToken P now (generateToken P t0 C) = None)
   \<and> (verifyToken P now tok = Some d \<longleftrightarrow>
        (\<exists>p. js_split CHR ''.'' tok
                = [jwt_header, p, jws_signature P (JWT_SECRET P) (jwt_header @ ''.'' @ p)]
             \<and> decode_claims p = Some d \<and> now < exp d))
   \<and> (jwt_verify P tok (JWT_SECRET P) now = Inl e \<longrightarrow> verifyToken P now tok = None)
   \<and> (verifyToken P now tok = None \<longleftrightarrow> (\<exists>e. jwt_verify P tok (JWT_SECRET P) now = Inl e))
   \<and> (jwt_verify P tok1 (JWT_SECRET P) now1 = Inl e1 \<and> jwt_verify P tok2 (JWT_SECRET P) now2 = Inl e2
        \<longrightarrow> verifyToken P now1 tok1 = verifyToken P now2 tok2)"
proof -
  have malformed: "length (js_split CHR ''.'' tok) \<noteq> 3 \<longrightarrow> verifyToken P now tok = None"
    by (simp add: verifyToken_def jwt_verify_def Let_def)
  have undecodable: "js_split CHR ''.'' tok = [h, p, s] \<and> decode_claims p = None \<longrightarrow>
        verifyToken P now tok = None"
    by (simp add: verifyToken_def jwt_verify_def Let_def)
  have signature: "js_split CHR ''.'' tok = [h, p, s]
        \<and> s \<noteq> jws_signature P (JWT_SECRET P) (h @ ''.'' @ p) \<longrightarrow> verifyToken P now tok = None"
    by (simp add: verifyToken_def jwt_verify_def Let_def split: option.splits)
  have expired: "js_split CHR ''.'' tok = [h, p, s] \<and> decode_claims p = Some d \<and> exp d \<le> now \<longrightarrow>
        verifyToken P now tok = None"
    by (simp add: verifyToken_def jwt_verify_def Let_def)
  have issued: "t0 + TOKEN_EXPIRATION \<le> now \<longrightarrow> verifyToken P now (generateToken P t0 C) = None"
    by (simp add: verifyToken_def generateToken_def jwt_verify_sign)
  have accepted: "verifyToken P now tok = Some d \<longleftrightarrow>
        (\<exists>p. js_split CHR ''.'' tok
                = [jwt_header, p, jws_signature P (JWT_SECRET P) (jwt_header @ ''.'' @ p)]
             \<and> decode_claims p = Some d \<and> now < exp d)"
    by (rule verifyToken_Some_iff)
  have thrown: "jwt_verify P tok (JWT_SECRET P) now = Inl e \<longrightarrow> verifyToken P now tok = None"
    by (simp add: verifyToken_def)
  have only: "verifyToken P now tok = None \<longleftrightarrow> (\<exists>e. jwt_verify P tok (JWT_SECRET P) now = Inl e)"
    by (auto simp: verifyToken_def split: sum.splits)
  have same: "jwt_verify P tok1 (JWT_SECRET P) now1 = Inl e1
        \<and> jwt_verify P tok2 (JWT_SECRET P) now2 = Inl e2
        \<longrightarrow> verifyToken P now1 tok1 = verifyToken P now2 tok2"
    by (simp add: verifyToken_def)
  show ?thesis
    using malformed undecodable signature expired issued accepted thrown only same
    by (intro conjI)
qed

theorem verifyToken_uniform_failure_witness:
  "length (js_split CHR ''.'' ''garbage'') \<noteq> 3
   \<and> verifyToken standin 5 ''garbage'' = None
   \<and> js_split CHR ''.'' forged_token = [jwt_header, encode_claims principal_manager, ''forged'']
   \<and> ''forged'' \<noteq> jws_signature standin (JWT_SECRET standin)
                     (jwt_header @ ''.'' @ encode_claims principal_manager)
   \<and> verifyToken standin 100 forged_token = None
   \<and> 0 + TOKEN_EXPIRATION \<le> (90000::nat)
   \<and> verifyToken standin 90000 (generateToken standin 0 manager_claims) = None"
proof -
  have parts: "length (js_split CHR ''.'' ''garbage'') \<noteq> 3"
    by simp
  have garbage: "verifyToken standin 5 ''garbage'' = None"
    using parts verifyToken_uniform_failure [where tok = "''garbage''" and P = standin and now = 5]
    by blast
  have split: "js_split CHR ''.'' forged_token
                 = [jwt_header, encode_claims principal_manager, ''forged'']"
    unfolding forged_token_def
    using js_split_three [of "CHR ''.''" jwt_header "encode_claims principal_manager" "''forged''"]
      no_dot_binary [OF set_jwt_header] no_dot_binary [OF set_encode_claims [of principal_manager]]
    by simp
  have "CHR ''f'' \<notin> set (jws_signature standin (JWT_SECRET standin)
                     (jwt_header @ ''.'' @ encode_claims principal_manager))"
    using set_jws_signature [of standin "JWT_SECRET standin"
        "jwt_header @ ''.'' @ encode_claims principal_manager"]
    by auto
  moreover have "CHR ''f'' \<in> set ''forged''"
    by simp
  ultimately have differ: "''forged'' \<noteq> jws_signature standin (JWT_SECRET standin)
                     (jwt_header @ ''.'' @ encode_claims principal_manager)"
    by metis
  have forged: "verifyToken standin 100 forged_token = None"
    using split differ
      verifyToken_uniform_failure [where tok = forged_token and P = standin and now = 100
        and h = jwt_header and p = "encode_claims principal_manager" and s = "''forged''"]
    by blast
  have late: "0 + TOKEN_EXPIRATION \<le> (90000::nat)"
    by (simp add: TOKEN_EXPIRATION_def)
  have stale: "verifyToken standin 90000 (generateToken standin 0 manager_claims) = None"
    using late
      verifyToken_uniform_failure [where P = standin and now = 90000 and ?t0.0 = 0
        and C = manager_claims]
    by blast
  show ?thesis
    using parts garbage split differ forged late stale by (intro conjI)
qed

text \<open>
  Claim C9 (role guard on a principal without roles).  When the attached principal has no
  \<open>roles\<close>, \<open>hasRole\<close> throws a TypeError for every list of allowed roles.
  \<open>authenticateUser\<close> signs a payload without \<open>roles\<close>; so a request carrying such a
  token in its \<open>Authorization\<close> header passes \<open>authenticated\<close>, which attaches the
  decoded payload, and every role guard then throws.
\<close>

theorem hasRole_throws_without_roles:
  "(session_user req = Some u \<and> roles u = None \<longrightarrow>
      hasRole allowed req = Threw (TypeError ''Cannot read properties of undefined (reading 'some')''))
   \<and> (authenticateUser P t0 e pw st = Inr r \<longrightarrow>
        (\<exists>user. findOne_by_email st e = Some user
           \<and> token r = generateToken P t0 \<lparr>userId = row_id user, email = user_email user,
                                           roles = None, tenantId = None\<rparr>))
   \<and> (authenticateUser P t0 e pw st = Inr r
        \<and> (\<forall>user. findOne_by_email st e = Some user \<longrightarrow>
              jwt_roundtrip P \<lparr>userId = row_id user, email = user_email user,
                                roles = None, tenantId = None\<rparr> t0 now)
        \<and> now < t0 + TOKEN_EXPIRATION
        \<and> token r \<noteq> [] \<and> CHR '' '' \<notin> set (token r)
        \<and> authorization rq = Some (''Bearer '' @ token r) \<and> session rq \<noteq> None \<longrightarrow>
        (\<exists>rq'. authenticated P now rq = (Next, rq')
           \<and> hasRole allowed rq'
               = Threw (TypeError ''Cannot read properties of undefined (reading 'some')'')))"
proof (intro conjI impI)
  assume "session_user req = Some u \<and> roles u = None"
  then show "hasRole allowed req = Threw (TypeError ''Cannot read properties of undefined (reading 'some')'')"
    by (simp add: hasRole_def)
next
  assume "authenticateUser P t0 e pw st = Inr r"
  then show "\<exists>user. findOne_by_email st e = Some user
           \<and> token r = generateToken P t0 \<lparr>userId = row_id user, email = user_email user,
                                           roles = None, tenantId = None\<rparr>"
    by (rule authenticateUser_token)
next
  assume a: "authenticateUser P t0 e pw st = Inr r
        \<and> (\<forall>user. findOne_by_email st e = Some user \<longrightarrow>
              jwt_roundtrip P \<lparr>userId = row_id user, email = user_email user,
                                roles = None, tenantId = None\<rparr> t0 now)
        \<and> now < t0 + TOKEN_EXPIRATION
        \<and> token r \<noteq> [] \<and> CHR '' '' \<notin> set (token r)
        \<and> authorization rq = Some (''Bearer '' @ token r) \<and> session rq \<noteq> None"
  then obtain user where found: "findOne_by_email st e = Some user"
    and tok: "token r = generateToken P t0 \<lparr>userId = row_id user,
      email = user_email user, roles = None, tenantId = None\<rparr>"
    using authenticateUser_token by blast
  let ?C = "\<lparr>userId = row_id user, email = user_email user, roles = None, tenantId = None\<rparr>"
  let ?d = "stamp ?C t0 (t0 + TOKEN_EXPIRATION)"
  from a found have "jwt_roundtrip P ?C t0 now" by blast
  with a have "jwt_verify P (generateToken P t0 ?C) (JWT_SECRET P) now = Inr ?d"
    by (simp add: jwt_roundtrip_def generateToken_def)
  then have v: "verifyToken P now (token r) = Some ?d"
    by (simp add: verifyToken_def tok)
  have hv: "hasValidSession P now (Some (''Bearer '' @ token r)) = verifyToken P now (token r)"
    by (rule hasValidSession_bearer) (use a in blast)+
  from a have hdr: "authorization rq = Some (''Bearer '' @ token r)" by blast
  have "hasValidSession P now (authorization rq) = Some ?d"
    by (simp only: hdr hv v)
  moreover obtain s where "session rq = Some s" using a by auto
  ultimately have auth: "authenticated P now rq = (Next, rq\<lparr>session := Some (Some ?d)\<rparr>)"
    by (simp add: authenticated_def)
  have "hasRole allowed (rq\<lparr>session := Some (Some ?d)\<rparr>)
          = Threw (TypeError ''Cannot read properties of undefined (reading 'some')'')"
    by (simp add: hasRole_def session_user_def stamp_def)
  with auth show "\<exists>rq'. authenticated P now rq = (Next, rq')
           \<and> hasRole allowed rq'
               = Threw (TypeError ''Cannot read properties of undefined (reading 'some')'')"
    by simp
qed

theorem hasRole_throws_without_roles_witness:
  "authenticateUser standin 0 ''a@b.com'' ''secret123'' store1
     = Inr \<lparr>auth_id = ''u1'', auth_email = ''a@b.com'',
            token = generateToken standin 0 alice_claims\<rparr>
   \<and> (100::nat) < 0 + TOKEN_EXPIRATION
   \<and> authorization (bearer_request (generateToken standin 0 alice_claims))
       = Some (''Bearer '' @ generateToken standin 0 alice_claims)
   \<and> session (bearer_request (generateToken standin 0 alice_claims)) \<noteq> None
   \<and> (\<exists>rq'. authenticated standin 100 (bearer_request (generateToken standin 0 alice_claims))
                = (Next, rq')
          \<and> hasRole [UserRole_USER] rq'
              = Threw (TypeError ''Cannot read properties of undefined (reading 'some')''))"
proof -
  let ?tok = "generateToken standin 0 alice_claims"
  let ?rq = "bearer_request ?tok"
  let ?r = "\<lparr>auth_id = ''u1'', auth_email = ''a@b.com'', token = ?tok\<rparr>"
  have issued: "authenticateUser standin 0 ''a@b.com'' ''secret123'' store1 = Inr ?r"
    by (simp add: authenticateUser_def findOne_by_email_def store1_def alice_def
        User_validatePassword_def verifyPassword_def standin_def standin_compare_def
        row_id_def alice_claims_def)
  have before: "(100::nat) < 0 + TOKEN_EXPIRATION"
    by (simp add: TOKEN_EXPIRATION_def)
  have header: "authorization ?rq = Some (''Bearer '' @ ?tok)"
    by (simp add: bearer_request_def)
  have sess: "session ?rq \<noteq> None"
    by (simp add: bearer_request_def)
  have pre: "authenticateUser standin 0 ''a@b.com'' ''secret123'' store1 = Inr ?r
        \<and> (\<forall>user. findOne_by_email store1 ''a@b.com'' = Some user \<longrightarrow>
              jwt_roundtrip standin \<lparr>userId = row_id user, email = user_email user,
                                      roles = None, tenantId = None\<rparr> 0 100)
        \<and> (100::nat) < 0 + TOKEN_EXPIRATION
        \<and> token ?r \<noteq> [] \<and> CHR '' '' \<notin> set (token ?r)
        \<and> authorization ?rq = Some (''Bearer '' @ token ?r) \<and> session ?rq \<noteq> None"
    using issued before header sess
    by (simp add: jwt_roundtrip_holds generateToken_nonempty generateToken_no_space)
  have "\<exists>rq'. authenticated standin 100 ?rq = (Next, rq')
          \<and> hasRole [UserRole_USER] rq'
              = Threw (TypeError ''Cannot read properties of undefined (reading 'some')'')"
    by (rule hasRole_throws_without_roles [where P = standin and ?t0.0 = 0
          and e = "''a@b.com''" and pw = "''secret123''" and st = store1 and r = ?r
          and now = 100 and rq = ?rq and allowed = "[UserRole_USER]",
          THEN conjunct2, THEN conjunct2, THEN mp])
       (rule pre)
  with issued before header sess show ?thesis by (intro conjI)
qed

text \<open>
  Claim C10 (login).  \<open>login\<close> never resolves to null; every rejection carries status
  401; it resolves to a user exactly when that user is found by email and the password
  comparison resolves to true; an unknown email, raised inside as 404 \<open>User not found\<close>,
  reaches the caller as 401 \<open>Login failed: User not found\<close>, the status a wrong password
  gets.
\<close>

theorem login_never_null:
  "login P e pw st \<noteq> Inr None
   \<and> (\<forall>err. login P e pw st = Inl err \<longrightarrow> error_status err = Some HTTP_UNAUTHENTICATED)
   \<and> (\<forall>u. login P e pw st = Inr (Some u) \<longleftrightarrow>
          findUserByEmail st e = Some u \<and> UserService_verifyPassword P pw (password u) = Inr True)
   \<and> (findUserByEmail st e = None \<longrightarrow>
        login_attempt P e pw st = Inl (AppError ''User not found'' ''AppError'' HTTP_NOT_FOUND) \<and>
        login P e pw st = Inl (AppError ''Login failed: User not found'' ''AppError'' HTTP_UNAUTHENTICATED))
   \<and> (\<forall>u. findUserByEmail st e = Some u \<and> UserService_verifyPassword P pw (password u) = Inr False \<longrightarrow>
        login P e pw st = Inl (AppError ''Login failed: Invalid password'' ''AppError'' HTTP_UNAUTHENTICATED))"
  by (auto simp: login_def login_attempt_def throwError_def split: option.splits sum.splits)

theorem login_never_null_witness:
  "findUserByEmail store1 ''nobody@b.com'' = None
   \<and> login standin ''nobody@b.com'' ''secret123'' store1
       = Inl (AppError ''Login failed: User not found'' ''AppError'' 401)
   \<and> findUserByEmail store1 ''a@b.com'' = Some alice
   \<and> UserService_verifyPassword standin ''wrong'' (password alice) = Inr False
   \<and> login standin ''a@b.com'' ''wrong'' store1
       = Inl (AppError ''Login failed: Invalid password'' ''AppError'' 401)
   \<and> login standin ''a@b.com'' ''secret123'' store1 = Inr (Some alice)"
  using login_never_null [of standin "''nobody@b.com''" "''secret123''" store1]
    login_never_null [of standin "''a@b.com''" "''wrong''" store1]
    login_never_null [of standin "''a@b.com''" "''secret123''" store1]
  by (simp add: findUserByEmail_def findOne_by_email_def store1_def alice_def
      UserService_verifyPassword_def standin_def standin_compare_def HTTP_UNAUTHENTICATED_def)

end
